theory Spec2Isabelle
  imports Main
begin

section \<open>Python values and exceptions\<close>

text \<open>
  The script \<^verbatim>\<open>run.py\<close> talks to one device through two client libraries
  (ncclient for NETCONF, netmiko for the CLI) and turns the XML it reads into nested
  Python values with \<^verbatim>\<open>xmltodict.parse\<close>. Those values are strings, \<^verbatim>\<open>None\<close>,
  lists and dictionaries with string keys. A dictionary is kept as an association
  list read through \<open>map_of\<close>; a parsed document has each key once.
\<close>

datatype pyval =
    PNone
  | PStr string
  | PList "pyval list"
  | PDict "(string \<times> pyval) list"

text \<open>
  Exceptions are values. \<open>KeyError None\<close> is the bare \<^verbatim>\<open>raise KeyError\<close> of the
  source, \<open>KeyError (Some k)\<close> the one a dictionary raises for a missing key \<open>k\<close>.
  \<open>LibraryError\<close> stands for whatever the client libraries raise themselves
  (connection, authentication, RPC and XML errors); \<open>FormatUnsupported\<close> marks a
  format string outside the fragment of \<^verbatim>\<open>str.format\<close> that is modelled below.
\<close>

datatype py_error =
    ValueError string
  | KeyError "string option"
  | TypeError
  | LibraryError string
  | FormatUnsupported

text \<open>\<^verbatim>\<open>v[k]\<close> for a string key: only a dictionary can be indexed by a string.\<close>

fun getitem :: "pyval \<Rightarrow> string \<Rightarrow> py_error + pyval" where
  "getitem (PDict d) k = (case map_of d k of None \<Rightarrow> Inl (KeyError (Some k)) | Some v \<Rightarrow> Inr v)"
| "getitem PNone k = Inl TypeError"
| "getitem (PStr s) k = Inl TypeError"
| "getitem (PList xs) k = Inl TypeError"

text \<open>\<^verbatim>\<open>v[k1][k2]...[kn]\<close>, evaluated left to right; the first failure is the result.\<close>

fun getpath :: "pyval \<Rightarrow> string list \<Rightarrow> py_error + pyval" where
  "getpath v [] = Inr v"
| "getpath v (k # ks) = (case getitem v k of Inl e \<Rightarrow> Inl e | Inr u \<Rightarrow> getpath u ks)"

text \<open>\<^verbatim>\<open>type(v) is str\<close> and \<^verbatim>\<open>type(v) is list\<close>.\<close>

fun is_str :: "pyval \<Rightarrow> bool" where
  "is_str (PStr s) = True"
| "is_str v = False"

fun is_list :: "pyval \<Rightarrow> bool" where
  "is_list (PList xs) = True"
| "is_list v = False"

text \<open>
  \<^verbatim>\<open>k in v\<close> for a string \<open>k\<close>: key membership in a dictionary, substring test in a
  string, element equality in a list, and a \<^verbatim>\<open>TypeError\<close> on \<^verbatim>\<open>None\<close>.
\<close>

fun substring_of :: "string \<Rightarrow> string \<Rightarrow> bool" where
  "substring_of k [] = (k = [])"
| "substring_of k (c # cs) = (take (length k) (c # cs) = k \<or> substring_of k cs)"

fun contains :: "string \<Rightarrow> pyval \<Rightarrow> py_error + bool" where
  "contains k (PDict d) = Inr (k \<in> set (map fst d))"
| "contains k (PStr s) = Inr (substring_of k s)"
| "contains k (PList xs) = Inr (PStr k \<in> set xs)"
| "contains k PNone = Inl TypeError"

section \<open>Reading the community list (\<^verbatim>\<open>netconf.getRouteMapBGPCommunity\<close>, result processing)\<close>

text \<open>
  The subscript chain that the source writes out four times:
  \<^verbatim>\<open>netconfResponse['data']['native']['route-map']['route-map-without-order-seq']
  ['set']['community']['community-well-known']['community-list']\<close>.
\<close>

definition community_list_path :: "string list" where
  "community_list_path =
     [''data'', ''native'', ''route-map'', ''route-map-without-order-seq'',
      ''set'', ''community'', ''community-well-known'', ''community-list'']"

definition community_list :: "pyval \<Rightarrow> py_error + pyval" where
  "community_list netconfResponse = getpath netconfResponse community_list_path"

text \<open>
  The body of the \<^verbatim>\<open>try\<close>: the chain is evaluated again in every test and
  assignment, as in the source. The value is what \<^verbatim>\<open>communities\<close> is bound to.
\<close>

definition getRouteMapBGPCommunity_try :: "pyval \<Rightarrow> py_error + pyval" where
  "getRouteMapBGPCommunity_try netconfResponse =
     (case community_list netconfResponse of
        Inl e \<Rightarrow> Inl e
      | Inr t1 \<Rightarrow>
          if is_str t1 then
            (case community_list netconfResponse of
               Inl e \<Rightarrow> Inl e
             | Inr v \<Rightarrow> Inr (PList [v]))
          else
            (case community_list netconfResponse of
               Inl e \<Rightarrow> Inl e
             | Inr t2 \<Rightarrow>
                 if is_list t2 then community_list netconfResponse
                 else Inl (KeyError None)))"

text \<open>
  \<^verbatim>\<open>except KeyError: communities = []\<close>, then \<^verbatim>\<open>return communities\<close>. Any other
  exception leaves the function.
\<close>

definition getRouteMapBGPCommunity_result :: "pyval \<Rightarrow> py_error + pyval" where
  "getRouteMapBGPCommunity_result netconfResponse =
     (case getRouteMapBGPCommunity_try netconfResponse of
        Inl (KeyError k) \<Rightarrow> Inr (PList [])
      | Inl e \<Rightarrow> Inl e
      | Inr communities \<Rightarrow> Inr communities)"

section \<open>Reading the new-format toggle (\<^verbatim>\<open>netconf.getBGPCommunityNewFormat\<close>, result processing)\<close>

text \<open>\<^verbatim>\<open>if ('native' in netconfResponse['data']): return True else: return False\<close>\<close>

definition getBGPCommunityNewFormat_result :: "pyval \<Rightarrow> py_error + bool" where
  "getBGPCommunityNewFormat_result netconfResponse =
     (case getitem netconfResponse ''data'' of
        Inl e \<Rightarrow> Inl e
      | Inr d \<Rightarrow>
          (case contains ''native'' d of
             Inl e \<Rightarrow> Inl e
           | Inr b \<Rightarrow> if b then Inr True else Inr False))"

section \<open>String formatting\<close>

text \<open>\<^verbatim>\<open>str(n)\<close> for an integer: decimal digits, a minus sign when negative.\<close>

fun str_nat :: "nat \<Rightarrow> string" where
  "str_nat n = (if n < 10 then [''0123456789'' ! n]
                else str_nat (n div 10) @ [''0123456789'' ! (n mod 10)])"

declare str_nat.simps [simp del]

definition str_int :: "int \<Rightarrow> string" where
  "str_int i = (if i < 0 then CHR ''-'' # str_nat (nat (- i)) else str_nat (nat i))"

text \<open>
  \<^verbatim>\<open>template.format(name1=v1, ...)\<close> with keyword arguments only, for templates whose
  replacement fields are plain keyword names (\<^verbatim>\<open>{routeMapName}\<close>), which is every
  template of the source. The template is scanned left to right: \<^verbatim>\<open>{{\<close> and
  \<^verbatim>\<open>}}\<close> are literal braces, \<^verbatim>\<open>{name}\<close> is replaced by the argument of that name
  (a \<^verbatim>\<open>KeyError\<close> when there is none), a lone brace is a \<^verbatim>\<open>ValueError\<close>. The
  value is inserted as it is and never scanned again. A field with a conversion, a
  format specification, an attribute, an index or a position is reported as
  \<open>FormatUnsupported\<close>. The second argument is the field name read so far, \<open>None\<close>
  outside a field.
\<close>

definition field_char :: "char \<Rightarrow> bool" where
  "field_char c =
     (c \<in> set ''abcdefghijklmnopqrstuvwxyzABCDEFGHIJKLMNOPQRSTUVWXYZ0123456789_'')"

definition keyword_name :: "string \<Rightarrow> bool" where
  "keyword_name name = (name \<noteq> [] \<and> hd name \<notin> set ''0123456789'')"

fun format_scan :: "(string \<times> string) list \<Rightarrow> string option \<Rightarrow> string \<Rightarrow> py_error + string" where
  "format_scan kw None [] = Inr []"
| "format_scan kw None [c] =
     (if c = CHR ''{'' then Inl (ValueError ''Single '{' encountered in format string'')
      else if c = CHR ''}'' then Inl (ValueError ''Single '}' encountered in format string'')
      else Inr [c])"
| "format_scan kw None (c # d # ds) =
     (if c = CHR ''{'' then
        (if d = CHR ''{'' then
           (case format_scan kw None ds of Inl e \<Rightarrow> Inl e | Inr s \<Rightarrow> Inr (CHR ''{'' # s))
         else format_scan kw (Some []) (d # ds))
      else if c = CHR ''}'' then
        (if d = CHR ''}'' then
           (case format_scan kw None ds of Inl e \<Rightarrow> Inl e | Inr s \<Rightarrow> Inr (CHR ''}'' # s))
         else Inl (ValueError ''Single '}' encountered in format string''))
      else
        (case format_scan kw None (d # ds) of Inl e \<Rightarrow> Inl e | Inr s \<Rightarrow> Inr (c # s)))"
| "format_scan kw (Some name) [] = Inl (ValueError ''expected '}' before end of string'')"
| "format_scan kw (Some name) (c # cs) =
     (if c = CHR ''}'' then
        (if \<not> keyword_name name then Inl FormatUnsupported
         else
           (case map_of kw name of
              None \<Rightarrow> Inl (KeyError (Some name))
            | Some v \<Rightarrow>
                (case format_scan kw None cs of Inl e \<Rightarrow> Inl e | Inr s \<Rightarrow> Inr (v @ s))))
      else if field_char c then format_scan kw (Some (name @ [c])) cs
      else Inl FormatUnsupported)"

definition format_str :: "string \<Rightarrow> (string \<times> string) list \<Rightarrow> py_error + string" where
  "format_str template kw = format_scan kw None template"

text \<open>
  The templates of the source are triple-quoted strings indented with tabs: a newline,
  then lines of \<open>n\<close> tabs and text, then the two tabs before the closing quotes.
\<close>

definition line :: "nat \<Rightarrow> string \<Rightarrow> string" where
  "line n s = replicate n (CHR 0x09) @ s @ [CHR 0x0A]"

section \<open>The device behind the two client libraries\<close>

text \<open>
  The instances hold the connection parameters. The constructor of \<^verbatim>\<open>netconf\<close>
  only stores them (the port defaults to 830); every NETCONF operation opens its own
  session with them. The \<^verbatim>\<open>ssh\<close> instance also holds the netmiko session opened by
  its constructor (port 22 by default), which these parameters identify here.
\<close>

record netconf =
  host :: string
  port :: int
  username :: string
  password :: string

record ssh =
  host :: string
  port :: int
  username :: string
  password :: string

text \<open>An argument with a default value is an \<open>option\<close>: \<open>None\<close> when the caller omits it.\<close>

definition dflt :: "'a \<Rightarrow> 'a option \<Rightarrow> 'a" where
  "dflt d a = (case a of None \<Rightarrow> d | Some x \<Rightarrow> x)"

definition netconf_init :: "string \<Rightarrow> string \<Rightarrow> string \<Rightarrow> int option \<Rightarrow> netconf" where
  "netconf_init h u p port_arg =
     \<lparr>netconf.host = h, netconf.port = dflt 830 port_arg,
      netconf.username = u, netconf.password = p\<rparr>"

text \<open>
  What leaves the process. \<open>Get_config self source filter\<close> is
  \<^verbatim>\<open>connect(host, port, username, password, hostkey_verify=False)\<close> followed by
  \<^verbatim>\<open>manager.get_config(source, filter).data_xml\<close> and the end of the session;
  \<open>Edit_config self target config\<close> is the same with \<^verbatim>\<open>manager.edit_config\<close>;
  \<open>Send_command self command\<close> is \<^verbatim>\<open>self.ssh.send_command(command)\<close>.
\<close>

datatype request =
    Get_config netconf string string
  | Edit_config netconf string string
  | Send_command ssh string

text \<open>
  The device and the libraries are a parameter: a function that answers a request in
  a state \<open>'w\<close> of the outside world with the text it returns or the exception it
  raises, and the next state. An operation runs on the list of requests made so far
  and that state.
\<close>

type_synonym 'w remote = "request \<Rightarrow> 'w \<Rightarrow> (py_error + string) \<times> 'w"

type_synonym ('a, 'w) io = "request list \<times> 'w \<Rightarrow> (py_error + 'a) \<times> (request list \<times> 'w)"

definition io_return :: "'a \<Rightarrow> ('a, 'w) io" where
  "io_return x = (\<lambda>st. (Inr x, st))"

definition io_raise :: "py_error \<Rightarrow> ('a, 'w) io" where
  "io_raise e = (\<lambda>st. (Inl e, st))"

definition io_lift :: "py_error + 'a \<Rightarrow> ('a, 'w) io" where
  "io_lift r = (\<lambda>st. (r, st))"

definition io_bind :: "('a, 'w) io \<Rightarrow> ('a \<Rightarrow> ('b, 'w) io) \<Rightarrow> ('b, 'w) io" where
  "io_bind m f = (\<lambda>st. case m st of (Inl e, st') \<Rightarrow> (Inl e, st') | (Inr x, st') \<Rightarrow> f x st')"

definition call :: "'w remote \<Rightarrow> request \<Rightarrow> (string, 'w) io" where
  "call net req = (\<lambda>(reqs, w). case net req w of (r, w') \<Rightarrow> (r, (reqs @ [req], w')))"

section \<open>The NETCONF operations\<close>

subsection \<open>\<^verbatim>\<open>netconf.getRouteMapByName\<close>\<close>

definition getRouteMapByName_filter :: string where
  \<open>getRouteMapByName_filter =
  [CHR 0x0A] @
  line 3 ''<filter>'' @
  line 4 ''<native xmlns="http://cisco.com/ns/yang/Cisco-IOS-XE-native">'' @
  line 5 ''<route-map>'' @
  line 6 ''<name>{routeMapName}</name>'' @
  line 5 ''</route-map>'' @
  line 4 ''</native>'' @
  line 3 ''</filter>'' @
  replicate 2 (CHR 0x09)\<close>

definition getRouteMapByName :: "'w remote \<Rightarrow> netconf \<Rightarrow> string option \<Rightarrow> (string, 'w) io" where
  "getRouteMapByName net self routeMapName_arg =
     (let routeMapName = dflt ''routeMapName'' routeMapName_arg in
      io_bind (io_lift (format_str getRouteMapByName_filter [(''routeMapName'', routeMapName)]))
        (\<lambda>filter. io_bind (call net (Get_config self ''running'' filter))
          (\<lambda>netconfResponse. io_return netconfResponse)))"

subsection \<open>\<^verbatim>\<open>netconf.setRouteMap\<close>\<close>

definition setRouteMap_config :: string where
  \<open>setRouteMap_config =
  [CHR 0x0A] @
  line 3 ''<config>'' @
  line 4 ''<native xmlns="http://cisco.com/ns/yang/Cisco-IOS-XE-native">'' @
  line 5 ''<route-map operation="{operation}">'' @
  line 6 ''<name>{routeMapName}</name>'' @
  line 6 ''<route-map-without-order-seq xmlns="http://cisco.com/ns/yang/Cisco-IOS-XE-route-map">'' @
  line 7 ''<seq_no>{routeMapSequence}</seq_no>'' @
  line 7 ''<operation>{routeMapOperation}</operation>'' @
  line 6 ''</route-map-without-order-seq>'' @
  line 5 ''</route-map>'' @
  line 4 ''</native>'' @
  line 3 ''</config>'' @
  replicate 2 (CHR 0x09)\<close>

definition setRouteMap_message :: string where
  \<open>setRouteMap_message = ''routeMapOperation must be either 'permit' or 'deny'' @ [CHR 0x27]\<close>

definition setRouteMap ::
  "'w remote \<Rightarrow> netconf \<Rightarrow> string \<Rightarrow> int option \<Rightarrow> string option \<Rightarrow> bool option \<Rightarrow> (unit, 'w) io" where
  "setRouteMap net self routeMapName routeMapSequence_arg routeMapOperation_arg delete_arg =
     (let routeMapSequence = dflt 10 routeMapSequence_arg;
          routeMapOperation = dflt ''permit'' routeMapOperation_arg;
          delete = dflt False delete_arg;
          operation = (if delete then ''remove'' else ''merge'')
      in
        if routeMapOperation \<noteq> ''permit'' \<and> routeMapOperation \<noteq> ''deny''
        then io_raise (ValueError setRouteMap_message)
        else
          io_bind (io_lift (format_str setRouteMap_config
              [(''routeMapName'', routeMapName),
               (''routeMapSequence'', str_int routeMapSequence),
               (''routeMapOperation'', routeMapOperation),
               (''operation'', operation)]))
            (\<lambda>config. io_bind (call net (Edit_config self ''running'' config))
              (\<lambda>reply. io_return ())))"

subsection \<open>\<^verbatim>\<open>netconf.getRouteMapBGPCommunity\<close>\<close>

definition getRouteMapBGPCommunity_filter :: string where
  \<open>getRouteMapBGPCommunity_filter =
  [CHR 0x0A] @
  line 3 ''<filter>'' @
  line 4 ''<native xmlns="http://cisco.com/ns/yang/Cisco-IOS-XE-native">'' @
  line 5 ''<route-map>'' @
  line 6 ''<name>{routeMapName}</name>'' @
  line 6 ''<route-map-without-order-seq xmlns="http://cisco.com/ns/yang/Cisco-IOS-XE-route-map">'' @
  line 7 ''<seq_no>{routeMapSequence}</seq_no>'' @
  line 6 ''</route-map-without-order-seq>'' @
  line 5 ''</route-map>'' @
  line 4 ''</native>'' @
  line 3 ''</filter>'' @
  replicate 2 (CHR 0x09)\<close>

text \<open>
  \<^verbatim>\<open>xmltodict.parse\<close> is a parameter too: it gives the parsed value of a document
  or raises.
\<close>

definition getRouteMapBGPCommunity ::
  "'w remote \<Rightarrow> (string \<Rightarrow> py_error + pyval) \<Rightarrow> netconf \<Rightarrow> string \<Rightarrow> int option \<Rightarrow> (pyval, 'w) io" where
  "getRouteMapBGPCommunity net parse self routeMapName routeMapSequence_arg =
     (let routeMapSequence = dflt 10 routeMapSequence_arg in
      io_bind (io_lift (format_str getRouteMapBGPCommunity_filter
          [(''routeMapName'', routeMapName),
           (''routeMapSequence'', str_int routeMapSequence)]))
        (\<lambda>filter. io_bind (call net (Get_config self ''running'' filter))
          (\<lambda>data_xml. io_bind (io_lift (parse data_xml))
            (\<lambda>netconfResponse. io_lift (getRouteMapBGPCommunity_result netconfResponse)))))"

subsection \<open>\<^verbatim>\<open>netconf.setRouteMapBGPCommunity\<close>\<close>

definition setRouteMapBGPCommunity_config :: string where
  \<open>setRouteMapBGPCommunity_config =
  [CHR 0x0A] @
  line 3 ''<config>'' @
  line 4 ''<native xmlns="http://cisco.com/ns/yang/Cisco-IOS-XE-native">'' @
  line 5 ''<route-map>'' @
  line 6 ''<name>{routeMapName}</name>'' @
  line 6 ''<route-map-without-order-seq xmlns="http://cisco.com/ns/yang/Cisco-IOS-XE-route-map">'' @
  line 7 ''<seq_no>{routeMapSequence}</seq_no>'' @
  line 7 ''<set>'' @
  line 8 ''<community>'' @
  line 9 ''<community-well-known>'' @
  line 10 ''<community-list operation="{operation}">{BGPCommunity}</community-list>'' @
  line 9 ''</community-well-known>'' @
  line 8 ''</community>'' @
  line 7 ''</set>'' @
  line 6 ''</route-map-without-order-seq>'' @
  line 5 ''</route-map>'' @
  line 4 ''</native>'' @
  line 3 ''</config>'' @
  replicate 2 (CHR 0x09)\<close>

definition setRouteMapBGPCommunity ::
  "'w remote \<Rightarrow> netconf \<Rightarrow> string \<Rightarrow> int option \<Rightarrow> string option \<Rightarrow> bool option \<Rightarrow> (unit, 'w) io" where
  "setRouteMapBGPCommunity net self routeMapName routeMapSequence_arg BGPCommunity_arg delete_arg =
     (let routeMapSequence = dflt 10 routeMapSequence_arg;
          BGPCommunity = dflt ''1:1'' BGPCommunity_arg;
          delete = dflt False delete_arg;
          operation = (if delete then ''remove'' else ''merge'')
      in
        io_bind (io_lift (format_str setRouteMapBGPCommunity_config
            [(''routeMapName'', routeMapName),
             (''routeMapSequence'', str_int routeMapSequence),
             (''BGPCommunity'', BGPCommunity),
             (''operation'', operation)]))
          (\<lambda>config. io_bind (call net (Edit_config self ''running'' config))
            (\<lambda>reply. io_return ())))"

subsection \<open>\<^verbatim>\<open>netconf.getBGPCommunityNewFormat\<close>\<close>

text \<open>This filter is a plain string: the source does not format it.\<close>

definition getBGPCommunityNewFormat_filter :: string where
  \<open>getBGPCommunityNewFormat_filter =
  [CHR 0x0A] @
  line 3 ''<filter>'' @
  line 4 ''<native xmlns="http://cisco.com/ns/yang/Cisco-IOS-XE-native">'' @
  line 5 ''<ip>'' @
  line 6 ''<bgp-community />'' @
  line 5 ''</ip>'' @
  line 4 ''</native>'' @
  line 3 ''</filter>'' @
  replicate 2 (CHR 0x09)\<close>

definition getBGPCommunityNewFormat ::
  "'w remote \<Rightarrow> (string \<Rightarrow> py_error + pyval) \<Rightarrow> netconf \<Rightarrow> (bool, 'w) io" where
  "getBGPCommunityNewFormat net parse self =
     io_bind (call net (Get_config self ''running'' getBGPCommunityNewFormat_filter))
       (\<lambda>data_xml. io_bind (io_lift (parse data_xml))
         (\<lambda>netconfResponse. io_lift (getBGPCommunityNewFormat_result netconfResponse)))"

subsection \<open>\<^verbatim>\<open>netconf.setBGPCommunityNewFormat\<close>\<close>

definition setBGPCommunityNewFormat_config :: string where
  \<open>setBGPCommunityNewFormat_config =
  [CHR 0x0A] @
  line 3 ''<config>'' @
  line 4 ''<native xmlns="http://cisco.com/ns/yang/Cisco-IOS-XE-native">'' @
  line 5 ''<ip>'' @
  line 6 ''<bgp-community>'' @
  line 7 ''<new-format operation="{operation}" />'' @
  line 6 ''</bgp-community>'' @
  line 5 ''</ip>'' @
  line 4 ''</native>'' @
  line 3 ''</config>'' @
  replicate 2 (CHR 0x09)\<close>

definition setBGPCommunityNewFormat :: "'w remote \<Rightarrow> netconf \<Rightarrow> bool option \<Rightarrow> (unit, 'w) io" where
  "setBGPCommunityNewFormat net self delete_arg =
     (let delete = dflt False delete_arg;
          operation = (if delete then ''remove'' else ''merge'')
      in
        io_bind (io_lift (format_str setBGPCommunityNewFormat_config [(''operation'', operation)]))
          (\<lambda>config. io_bind (call net (Edit_config self ''running'' config))
            (\<lambda>reply. io_return ())))"

section \<open>The CLI operation (\<^verbatim>\<open>ssh.getRouteMapConfig\<close>)\<close>

definition getRouteMapConfig_command :: string where
  "getRouteMapConfig_command = ''show running-config | section route-map {routeMapName}''"

definition getRouteMapConfig :: "'w remote \<Rightarrow> ssh \<Rightarrow> string option \<Rightarrow> (string, 'w) io" where
  "getRouteMapConfig net self routeMapName_arg =
     (let routeMapName = dflt [] routeMapName_arg in
      io_bind (io_lift (format_str getRouteMapConfig_command [(''routeMapName'', routeMapName)]))
        (\<lambda>command. call net (Send_command self command)))"

section \<open>A path that leads to no value\<close>

text \<open>
  \<open>path_absent v ks\<close>: walking \<open>ks\<close> down from \<open>v\<close>, some key of the path (the
  last one, or one of its ancestors) is not there: the dictionary reached has no
  such key, or what is reached is not a dictionary and so has no keys at all.
\<close>

fun path_absent :: "pyval \<Rightarrow> string list \<Rightarrow> bool" where
  "path_absent v [] = False"
| "path_absent (PDict d) (k # ks) =
     (case map_of d k of None \<Rightarrow> True | Some u \<Rightarrow> path_absent u ks)"
| "path_absent v (k # ks) = True"

section \<open>Observing an operation\<close>

text \<open>The requests an operation adds to the ones made before it.\<close>

definition issued :: "('a, 'w) io \<Rightarrow> request list \<times> 'w \<Rightarrow> request list" where
  "issued m st = drop (length (fst st)) (fst (snd (m st)))"

section \<open>Example inputs\<close>

text \<open>
  The instances that \<^verbatim>\<open>main\<close> builds (blank host and credentials, ports 10000 and
  8181), a device that answers every request with an empty text, a parsed reply
  that carries a value \<open>v\<close> as the community list of one route-map sequence, a
  reply with no configuration in it, and a reply whose route-map sequence has an
  empty \<^verbatim>\<open><set/>\<close> element, which \<^verbatim>\<open>xmltodict.parse\<close> turns into \<^verbatim>\<open>None\<close>.
\<close>

definition example_netconf :: netconf where
  "example_netconf = netconf_init [] [] [] (Some 10000)"

definition example_ssh :: ssh where
  "example_ssh = \<lparr>ssh.host = [], ssh.port = 8181, ssh.username = [], ssh.password = []\<rparr>"

definition example_remote :: "unit remote" where
  "example_remote req w = (Inr [], w)"

definition example_response :: "pyval \<Rightarrow> pyval" where
  \<open>example_response v =
     PDict [(''data'',
       PDict [(''@xmlns'', PStr ''urn:ietf:params:xml:ns:netconf:base:1.0''),
         (''native'',
           PDict [(''@xmlns'', PStr ''http://cisco.com/ns/yang/Cisco-IOS-XE-native''),
             (''route-map'',
               PDict [(''name'', PStr ''TEST_REPLICATION_BUG_NETCONF''),
                 (''route-map-without-order-seq'',
                   PDict [(''@xmlns'', PStr ''http://cisco.com/ns/yang/Cisco-IOS-XE-route-map''),
                     (''seq_no'', PStr ''10''),
                     (''operation'', PStr ''permit''),
                     (''set'',
                       PDict [(''community'',
                         PDict [(''community-well-known'',
                           PDict [(''community-list'', v)])])])])])])])]\<close>

definition example_empty_response :: pyval where
  "example_empty_response =
     PDict [(''data'', PDict [(''@xmlns'', PStr ''urn:ietf:params:xml:ns:netconf:base:1.0'')])]"

definition example_empty_set_response :: pyval where
  \<open>example_empty_set_response =
     PDict [(''data'',
       PDict [(''@xmlns'', PStr ''urn:ietf:params:xml:ns:netconf:base:1.0''),
         (''native'',
           PDict [(''@xmlns'', PStr ''http://cisco.com/ns/yang/Cisco-IOS-XE-native''),
             (''route-map'',
               PDict [(''name'', PStr ''TEST_REPLICATION_BUG_NETCONF''),
                 (''route-map-without-order-seq'',
                   PDict [(''@xmlns'', PStr ''http://cisco.com/ns/yang/Cisco-IOS-XE-route-map''),
                     (''seq_no'', PStr ''10''),
                     (''operation'', PStr ''permit''),
                     (''set'', PNone)])])])])]\<close>

section \<open>Lemmas on lookups and on the plumbing\<close>

lemma getpath_example_response: "getpath (example_response v) community_list_path = Inr v"
  by (simp add: example_response_def community_list_path_def)

text \<open>
  A path is absent exactly when the subscript chain raises, and it raises one of two
  exceptions: the \<^verbatim>\<open>KeyError\<close> of a dictionary without the key, or the
  \<^verbatim>\<open>TypeError\<close> of a value that cannot be indexed by a string.
\<close>

lemma path_absent_getpath: "path_absent v ks \<longleftrightarrow> (\<exists>e. getpath v ks = Inl e)"
  by (induction v ks rule: path_absent.induct) (auto split: option.splits)

lemma getpath_error:
  "getpath v ks = Inl e \<Longrightarrow> e = TypeError \<or> (\<exists>k. e = KeyError (Some k))"
proof (induction ks arbitrary: v)
  case Nil
  then show ?case by simp
next
  case (Cons k ks)
  then show ?case
    by (cases v) (auto split: option.splits sum.splits)
qed

lemma io_bind_lift_Inr: "io_bind (io_lift (Inr x)) f = f x"
  by (simp add: io_bind_def io_lift_def)

lemma io_bind_call_return:
  "io_bind (call net req) (\<lambda>r. io_return (g r)) (reqs, w) =
     (case net req w of (r, w') \<Rightarrow>
        ((case r of Inl e \<Rightarrow> Inl e | Inr x \<Rightarrow> Inr (g x)), (reqs @ [req], w')))"
  by (simp add: io_bind_def call_def io_return_def split: prod.splits sum.splits)

lemma issued_call: "issued (call net req) st = [req]"
  by (cases st) (simp add: issued_def call_def split: prod.splits)

lemma issued_call_return: "issued (io_bind (call net req) (\<lambda>r. io_return (g r))) st = [req]"
  by (cases st) (simp add: issued_def io_bind_call_return split: prod.splits)

lemma format_getRouteMapConfig_command:
  "format_str getRouteMapConfig_command [(''routeMapName'', n)] =
     Inr (''show running-config | section route-map '' @ n)"
  by (simp add: format_str_def getRouteMapConfig_command_def field_char_def keyword_name_def)

text \<open>
  What formatting makes of each template, for any argument values: the text of the
  template with each field replaced by its argument.
\<close>

lemmas fmt_defs = format_str_def line_def field_char_def keyword_name_def eval_nat_numeral

lemma format_getRouteMapByName_filter:
  \<open>format_str getRouteMapByName_filter [(''routeMapName'', n)] = Inr (
  [CHR 0x0A] @
  line 3 ''<filter>'' @
  line 4 ''<native xmlns="http://cisco.com/ns/yang/Cisco-IOS-XE-native">'' @
  line 5 ''<route-map>'' @
  line 6 (''<name>'' @ n @ ''</name>'') @
  line 5 ''</route-map>'' @
  line 4 ''</native>'' @
  line 3 ''</filter>'' @
  replicate 2 (CHR 0x09))\<close>
  by (simp add: getRouteMapByName_filter_def fmt_defs)

lemma format_setRouteMap_config:
  \<open>format_str setRouteMap_config
     [(''routeMapName'', n), (''routeMapSequence'', q),
      (''routeMapOperation'', a), (''operation'', operation)] = Inr (
  [CHR 0x0A] @
  line 3 ''<config>'' @
  line 4 ''<native xmlns="http://cisco.com/ns/yang/Cisco-IOS-XE-native">'' @
  line 5 (''<route-map operation="'' @ operation @ ''">'') @
  line 6 (''<name>'' @ n @ ''</name>'') @
  line 6 ''<route-map-without-order-seq xmlns="http://cisco.com/ns/yang/Cisco-IOS-XE-route-map">'' @
  line 7 (''<seq_no>'' @ q @ ''</seq_no>'') @
  line 7 (''<operation>'' @ a @ ''</operation>'') @
  line 6 ''</route-map-without-order-seq>'' @
  line 5 ''</route-map>'' @
  line 4 ''</native>'' @
  line 3 ''</config>'' @
  replicate 2 (CHR 0x09))\<close>
  by (simp add: setRouteMap_config_def fmt_defs)

lemma format_setRouteMapBGPCommunity_config:
  \<open>format_str setRouteMapBGPCommunity_config
     [(''routeMapName'', n), (''routeMapSequence'', q),
      (''BGPCommunity'', c), (''operation'', operation)] = Inr (
  [CHR 0x0A] @
  line 3 ''<config>'' @
  line 4 ''<native xmlns="http://cisco.com/ns/yang/Cisco-IOS-XE-native">'' @
  line 5 ''<route-map>'' @
  line 6 (''<name>'' @ n @ ''</name>'') @
  line 6 ''<route-map-without-order-seq xmlns="http://cisco.com/ns/yang/Cisco-IOS-XE-route-map">'' @
  line 7 (''<seq_no>'' @ q @ ''</seq_no>'') @
  line 7 ''<set>'' @
  line 8 ''<community>'' @
  line 9 ''<community-well-known>'' @
  line 10 (''<community-list operation="'' @ operation @ ''">'' @ c @ ''</community-list>'') @
  line 9 ''</community-well-known>'' @
  line 8 ''</community>'' @
  line 7 ''</set>'' @
  line 6 ''</route-map-without-order-seq>'' @
  line 5 ''</route-map>'' @
  line 4 ''</native>'' @
  line 3 ''</config>'' @
  replicate 2 (CHR 0x09))\<close>
  by (simp add: setRouteMapBGPCommunity_config_def fmt_defs)

lemma format_setBGPCommunityNewFormat_config:
  \<open>format_str setBGPCommunityNewFormat_config [(''operation'', operation)] = Inr (
  [CHR 0x0A] @
  line 3 ''<config>'' @
  line 4 ''<native xmlns="http://cisco.com/ns/yang/Cisco-IOS-XE-native">'' @
  line 5 ''<ip>'' @
  line 6 ''<bgp-community>'' @
  line 7 (''<new-format operation="'' @ operation @ ''" />'') @
  line 6 ''</bgp-community>'' @
  line 5 ''</ip>'' @
  line 4 ''</native>'' @
  line 3 ''</config>'' @
  replicate 2 (CHR 0x09))\<close>
  by (simp add: setBGPCommunityNewFormat_config_def fmt_defs)

lemma format_getRouteMapBGPCommunity_filter:
  \<open>format_str getRouteMapBGPCommunity_filter
     [(''routeMapName'', n), (''routeMapSequence'', q)] = Inr (
  [CHR 0x0A] @
  line 3 ''<filter>'' @
  line 4 ''<native xmlns="http://cisco.com/ns/yang/Cisco-IOS-XE-native">'' @
  line 5 ''<route-map>'' @
  line 6 (''<name>'' @ n @ ''</name>'') @
  line 6 ''<route-map-without-order-seq xmlns="http://cisco.com/ns/yang/Cisco-IOS-XE-route-map">'' @
  line 7 (''<seq_no>'' @ q @ ''</seq_no>'') @
  line 6 ''</route-map-without-order-seq>'' @
  line 5 ''</route-map>'' @
  line 4 ''</native>'' @
  line 3 ''</filter>'' @
  replicate 2 (CHR 0x09))\<close>
  by (simp add: getRouteMapBGPCommunity_filter_def fmt_defs)

text \<open>The two outcomes of the check on the action in \<^verbatim>\<open>setRouteMap\<close>.\<close>

lemma setRouteMap_invalid:
  assumes "dflt ''permit'' action \<noteq> ''permit''" and "dflt ''permit'' action \<noteq> ''deny''"
  shows "setRouteMap net self n q action del st = (Inl (ValueError setRouteMap_message), st)"
  using assms by (simp add: setRouteMap_def Let_def io_raise_def)

lemma setRouteMap_valid:
  assumes "dflt ''permit'' action = ''permit'' \<or> dflt ''permit'' action = ''deny''"
  shows "setRouteMap net self n q action del =
     io_bind (io_lift (format_str setRouteMap_config
              [(''routeMapName'', n),
               (''routeMapSequence'', str_int (dflt 10 q)),
               (''routeMapOperation'', dflt ''permit'' action),
               (''operation'', if dflt False del then ''remove'' else ''merge'')]))
            (\<lambda>config. io_bind (call net (Edit_config self ''running'' config))
              (\<lambda>reply. io_return ()))"
  using assms by (auto simp add: setRouteMap_def Let_def)

text \<open>
  The two reads that parse a reply: when the session returns a document and the parser
  a value, the result is the processing of that value, after exactly one request.
\<close>

lemma getRouteMapBGPCommunity_run:
  assumes "format_str getRouteMapBGPCommunity_filter
     [(''routeMapName'', n), (''routeMapSequence'', str_int (dflt 10 q))] = Inr flt"
    and "net (Get_config self ''running'' flt) w = (Inr data_xml, w')"
    and "parse data_xml = Inr netconfResponse"
  shows "getRouteMapBGPCommunity net parse self n q (reqs, w) =
     (getRouteMapBGPCommunity_result netconfResponse,
      (reqs @ [Get_config self ''running'' flt], w'))"
  using assms
  by (simp add: getRouteMapBGPCommunity_def Let_def io_bind_def io_lift_def call_def)

lemma getBGPCommunityNewFormat_run:
  assumes "net (Get_config self ''running'' getBGPCommunityNewFormat_filter) w = (Inr data_xml, w')"
    and "parse data_xml = Inr netconfResponse"
  shows "getBGPCommunityNewFormat net parse self (reqs, w) =
     (getBGPCommunityNewFormat_result netconfResponse,
      (reqs @ [Get_config self ''running'' getBGPCommunityNewFormat_filter], w'))"
  using assms
  by (simp add: getBGPCommunityNewFormat_def io_bind_def io_lift_def call_def)

text \<open>
  The handler of the community-list read catches \<^verbatim>\<open>KeyError\<close> only. A key
  missing from its dictionary gives the empty list; an entry on the path that is
  present but is not a dictionary makes the next subscript raise \<^verbatim>\<open>TypeError\<close>,
  which leaves the function. An absent path has one of these two outcomes.
\<close>

lemma getRouteMapBGPCommunity_KeyError_caught:
  "getpath netconfResponse community_list_path = Inl (KeyError k) \<Longrightarrow>
     getRouteMapBGPCommunity_result netconfResponse = Inr (PList [])"
  by (simp add: getRouteMapBGPCommunity_result_def getRouteMapBGPCommunity_try_def
      community_list_def)

lemma getRouteMapBGPCommunity_TypeError_raised:
  "getpath netconfResponse community_list_path = Inl TypeError \<Longrightarrow>
     getRouteMapBGPCommunity_result netconfResponse = Inl TypeError"
  by (simp add: getRouteMapBGPCommunity_result_def getRouteMapBGPCommunity_try_def
      community_list_def)

lemma getRouteMapBGPCommunity_absent_outcomes:
  assumes "path_absent netconfResponse community_list_path"
  shows "getRouteMapBGPCommunity_result netconfResponse =
     (if getpath netconfResponse community_list_path = Inl TypeError
      then Inl TypeError else Inr (PList []))"
proof -
  from assms obtain e where e: "getpath netconfResponse community_list_path = Inl e"
    by (auto simp add: path_absent_getpath)
  from getpath_error [OF e] show ?thesis
    using e
    by (auto simp add: getRouteMapBGPCommunity_KeyError_caught
        getRouteMapBGPCommunity_TypeError_raised)
qed

section \<open>The community list read back\<close>

text \<open>
  C1. When the value at
  \<^verbatim>\<open>data/native/route-map/route-map-without-order-seq/set/community/community-well-known/community-list\<close>
  of the parsed reply is a single string \<open>s\<close>, the read returns the one-element
  list holding exactly \<open>s\<close>.
\<close>

theorem getRouteMapBGPCommunity_single_string:
  assumes "getpath netconfResponse community_list_path = Inr (PStr s)"
  shows "getRouteMapBGPCommunity_result netconfResponse = Inr (PList [PStr s])"
  using assms
  by (simp add: getRouteMapBGPCommunity_result_def getRouteMapBGPCommunity_try_def
      community_list_def)

theorem getRouteMapBGPCommunity_single_string_witness:
  "getpath (example_response (PStr ''655370'')) community_list_path = Inr (PStr ''655370'')
   \<and> getRouteMapBGPCommunity_result (example_response (PStr ''655370'')) =
       Inr (PList [PStr ''655370''])"
  using getRouteMapBGPCommunity_single_string [of "example_response (PStr ''655370'')" "''655370''"]
  by (simp add: getpath_example_response)

text \<open>
  C2. When the value at the community-list path is already a list, the read returns
  that list unchanged: the same elements in the same order, duplicates kept. This
  holds for a list of any elements, so for a list of strings \<open>map PStr ss\<close>.
\<close>

theorem getRouteMapBGPCommunity_list_unchanged:
  assumes "getpath netconfResponse community_list_path = Inr (PList xs)"
  shows "getRouteMapBGPCommunity_result netconfResponse = Inr (PList xs)"
  using assms
  by (simp add: getRouteMapBGPCommunity_result_def getRouteMapBGPCommunity_try_def
      community_list_def)

theorem getRouteMapBGPCommunity_list_unchanged_witness:
  "getpath (example_response (PList (map PStr [''655370'', ''10:10'', ''655370''])))
       community_list_path = Inr (PList (map PStr [''655370'', ''10:10'', ''655370'']))
   \<and> getRouteMapBGPCommunity_result
         (example_response (PList (map PStr [''655370'', ''10:10'', ''655370'']))) =
       Inr (PList [PStr ''655370'', PStr ''10:10'', PStr ''655370''])"
  using getRouteMapBGPCommunity_list_unchanged
    [of "example_response (PList (map PStr [''655370'', ''10:10'', ''655370'']))"
        "map PStr [''655370'', ''10:10'', ''655370'']"]
  by (simp add: getpath_example_response)

text \<open>
  C3. The read is to return the empty list, and never fail, whenever the
  community-list field or one of its ancestors on the path is absent. The handler's
  own comment says so (\<^verbatim>\<open>If there is a problem, return nothing\<close>), and the
  \<^verbatim>\<open>else\<close> branch raises \<^verbatim>\<open>KeyError\<close> to reach it. The code does this only
  when a dictionary lacks the key. On the reply whose \<^verbatim>\<open>set\<close> element is empty
  the path is absent (\<^verbatim>\<open>set\<close> is \<^verbatim>\<open>None\<close>, so there is no \<^verbatim>\<open>community\<close>
  below it), \<^verbatim>\<open>None['community']\<close> raises \<^verbatim>\<open>TypeError\<close>, the handler does not
  catch it, and the read fails instead of returning the empty list.
\<close>

theorem getRouteMapBGPCommunity_absent_TypeError:
  "path_absent example_empty_set_response community_list_path
   \<and> getpath example_empty_set_response
        [''data'', ''native'', ''route-map'', ''route-map-without-order-seq'', ''set''] = Inr PNone
   \<and> getRouteMapBGPCommunity_result example_empty_set_response = Inl TypeError"
  by (simp add: example_empty_set_response_def community_list_path_def
      getRouteMapBGPCommunity_result_def getRouteMapBGPCommunity_try_def community_list_def)


text \<open>
  C9. When the whole path is present and its value is neither a string nor a list
  (\<^verbatim>\<open>None\<close> or a nested dictionary), the \<^verbatim>\<open>else\<close> branch raises a bare
  \<^verbatim>\<open>KeyError\<close>, the handler catches it, and the read returns the empty list as it
  does for an absent key.
\<close>

theorem getRouteMapBGPCommunity_other_shape_empty:
  assumes "getpath netconfResponse community_list_path = Inr v"
    and "\<not> is_str v" and "\<not> is_list v"
  shows "getRouteMapBGPCommunity_try netconfResponse = Inl (KeyError None)
    \<and> getRouteMapBGPCommunity_result netconfResponse = Inr (PList [])"
  using assms
  by (simp add: getRouteMapBGPCommunity_result_def getRouteMapBGPCommunity_try_def
      community_list_def)

theorem getRouteMapBGPCommunity_other_shape_empty_witness:
  "getpath (example_response PNone) community_list_path = Inr PNone
   \<and> \<not> is_str PNone \<and> \<not> is_list PNone
   \<and> getRouteMapBGPCommunity_result (example_response PNone) = Inr (PList [])
   \<and> getRouteMapBGPCommunity_result (example_response (PDict [(''#text'', PStr ''655370'')])) =
       Inr (PList [])"
  using getRouteMapBGPCommunity_other_shape_empty [of "example_response PNone" PNone]
    getRouteMapBGPCommunity_other_shape_empty
      [of "example_response (PDict [(''#text'', PStr ''655370'')])"
          "PDict [(''#text'', PStr ''655370'')]"]
  by (simp add: getpath_example_response)

section \<open>The new-format toggle read back\<close>

text \<open>
  C6. When the \<^verbatim>\<open>data\<close> entry of the parsed reply is a dictionary, the read returns
  True exactly when that dictionary has the key \<^verbatim>\<open>native\<close>. Nothing below the key
  is looked at, so any configuration under it gives True.
\<close>

theorem getBGPCommunityNewFormat_native_key:
  assumes "getitem netconfResponse ''data'' = Inr (PDict d)"
  shows "getBGPCommunityNewFormat_result netconfResponse = Inr (''native'' \<in> fst ` set d)"
  using assms by (simp add: getBGPCommunityNewFormat_result_def)

theorem getBGPCommunityNewFormat_native_key_witness:
  "getBGPCommunityNewFormat_result (example_response (PStr ''655370'')) = Inr True
   \<and> getBGPCommunityNewFormat_result (PDict [(''data'', PDict [(''native'', PNone)])]) = Inr True
   \<and> getBGPCommunityNewFormat_result example_empty_response = Inr False"
  using getBGPCommunityNewFormat_native_key [of "example_response (PStr ''655370'')"]
    getBGPCommunityNewFormat_native_key [of "PDict [(''data'', PDict [(''native'', PNone)])]"]
    getBGPCommunityNewFormat_native_key [of example_empty_response]
  by (simp add: example_response_def example_empty_response_def)

text \<open>
  C10. On a parsed reply without the top-level key \<^verbatim>\<open>data\<close> the toggle read fails
  with the \<^verbatim>\<open>KeyError\<close> of the lookup, which nothing catches; it does not return
  False. The community-list read on the same reply catches the error and returns the
  empty list.
\<close>

theorem getBGPCommunityNewFormat_missing_data:
  assumes "map_of d ''data'' = None"
  shows "getBGPCommunityNewFormat_result (PDict d) = Inl (KeyError (Some ''data''))
    \<and> getRouteMapBGPCommunity_result (PDict d) = Inr (PList [])"
  using assms
  by (simp add: getBGPCommunityNewFormat_result_def getRouteMapBGPCommunity_result_def
      getRouteMapBGPCommunity_try_def community_list_def community_list_path_def)

theorem getBGPCommunityNewFormat_missing_data_witness:
  "map_of [(''rpc-reply'', PNone)] ''data'' = None
   \<and> getBGPCommunityNewFormat_result (PDict [(''rpc-reply'', PNone)]) =
       Inl (KeyError (Some ''data''))
   \<and> getBGPCommunityNewFormat_result (PDict []) = Inl (KeyError (Some ''data''))"
  using getBGPCommunityNewFormat_missing_data [of "[(''rpc-reply'', PNone)]"]
    getBGPCommunityNewFormat_missing_data [of "[]"]
  by simp

section \<open>The CLI command\<close>

text \<open>
  C7. For every route-map name the CLI wrapper sends exactly the command
  \<^verbatim>\<open>show running-config | section route-map <name>\<close> with the name put in, and
  returns what the session returns. Without a name (the default, the empty string)
  the command ends after \<^verbatim>\<open>route-map \<close> and names no route-map.
\<close>

theorem getRouteMapConfig_command_sent:
  "getRouteMapConfig net self (Some routeMapName) (reqs, w) =
     call net (Send_command self (''show running-config | section route-map '' @ routeMapName))
       (reqs, w)
   \<and> issued (getRouteMapConfig net self (Some routeMapName)) (reqs, w) =
       [Send_command self (''show running-config | section route-map '' @ routeMapName)]
   \<and> issued (getRouteMapConfig net self None) (reqs, w) =
       [Send_command self ''show running-config | section route-map '']"
  by (simp add: getRouteMapConfig_def dflt_def format_getRouteMapConfig_command
      io_bind_lift_Inr issued_call)

theorem getRouteMapConfig_command_sent_witness:
  "issued (getRouteMapConfig example_remote example_ssh (Some ''TEST_REPLICATION_BUG_NETCONF''))
       ([], ()) =
     [Send_command example_ssh
        ''show running-config | section route-map TEST_REPLICATION_BUG_NETCONF'']
   \<and> issued (getRouteMapConfig example_remote example_ssh None) ([], ()) =
     [Send_command example_ssh ''show running-config | section route-map '']"
  using getRouteMapConfig_command_sent
    [of example_remote example_ssh "''TEST_REPLICATION_BUG_NETCONF''" "[]" "()"]
  by simp

section \<open>The edit operations\<close>

text \<open>
  C4. Called with an action that is neither \<^verbatim>\<open>permit\<close> nor \<^verbatim>\<open>deny\<close> (such as
  \<^verbatim>\<open>allow\<close>), whatever the delete flag, \<^verbatim>\<open>setRouteMap\<close> raises the
  \<^verbatim>\<open>ValueError\<close> with no request made: the list of requests and the outside world
  are as before. With \<^verbatim>\<open>permit\<close> or \<^verbatim>\<open>deny\<close> it makes one edit-config request
  and its outcome is that of the request, so the check raises nothing.
\<close>

theorem setRouteMap_validates_action:
  "(action \<noteq> ''permit'' \<and> action \<noteq> ''deny'' \<longrightarrow>
      setRouteMap net self n q (Some action) del (reqs, w) =
        (Inl (ValueError setRouteMap_message), (reqs, w)))
   \<and> (action = ''permit'' \<or> action = ''deny'' \<longrightarrow>
      (\<exists>config. setRouteMap net self n q (Some action) del (reqs, w) =
         (case net (Edit_config self ''running'' config) w of
            (r, w') \<Rightarrow> ((case r of Inl e \<Rightarrow> Inl e | Inr reply \<Rightarrow> Inr ()),
                        (reqs @ [Edit_config self ''running'' config], w')))))"
proof (intro conjI impI)
  assume "action \<noteq> ''permit'' \<and> action \<noteq> ''deny''"
  then show "setRouteMap net self n q (Some action) del (reqs, w) =
        (Inl (ValueError setRouteMap_message), (reqs, w))"
    by (simp add: setRouteMap_invalid dflt_def)
next
  assume "action = ''permit'' \<or> action = ''deny''"
  then have v: "dflt ''permit'' (Some action) = ''permit'' \<or> dflt ''permit'' (Some action) = ''deny''"
    by (simp add: dflt_def)
  show "\<exists>config. setRouteMap net self n q (Some action) del (reqs, w) =
         (case net (Edit_config self ''running'' config) w of
            (r, w') \<Rightarrow> ((case r of Inl e \<Rightarrow> Inl e | Inr reply \<Rightarrow> Inr ()),
                        (reqs @ [Edit_config self ''running'' config], w')))"
    unfolding setRouteMap_valid [OF v] format_setRouteMap_config io_bind_lift_Inr
      io_bind_call_return
    by (rule exI) (rule refl)
qed

theorem setRouteMap_validates_action_witness:
  "setRouteMap example_remote example_netconf ''X'' None (Some ''allow'') None ([], ()) =
     (Inl (ValueError setRouteMap_message), ([], ()))
   \<and> setRouteMap example_remote example_netconf ''X'' None (Some ''allow'') (Some True) ([], ()) =
     (Inl (ValueError setRouteMap_message), ([], ()))
   \<and> fst (setRouteMap example_remote example_netconf ''X'' None (Some ''permit'') None ([], ())) =
     Inr ()
   \<and> fst (setRouteMap example_remote example_netconf ''X'' None (Some ''deny'') (Some True) ([], ())) =
     Inr ()"
  using
    setRouteMap_validates_action [where action = "''allow''" and del = None
      and net = example_remote and self = example_netconf and n = "''X''" and q = None
      and reqs = "[]" and w = "()"]
    setRouteMap_validates_action [where action = "''allow''" and del = "Some True"
      and net = example_remote and self = example_netconf and n = "''X''" and q = None
      and reqs = "[]" and w = "()"]
    setRouteMap_validates_action [where action = "''permit''" and del = None
      and net = example_remote and self = example_netconf and n = "''X''" and q = None
      and reqs = "[]" and w = "()"]
    setRouteMap_validates_action [where action = "''deny''" and del = "Some True"
      and net = example_remote and self = example_netconf and n = "''X''" and q = None
      and reqs = "[]" and w = "()"]
  by (auto simp add: example_remote_def)

text \<open>
  C5. Each edit operation sends one edit-config request on \<^verbatim>\<open>running\<close> whose
  payload carries, on the node it edits, \<^verbatim>\<open>operation="remove"\<close> when the delete
  flag is True and \<^verbatim>\<open>operation="merge"\<close> when it is False or omitted:
  \<^verbatim>\<open>route-map\<close> for \<^verbatim>\<open>setRouteMap\<close>, \<^verbatim>\<open>community-list\<close> for
  \<^verbatim>\<open>setRouteMapBGPCommunity\<close>, and \<^verbatim>\<open>new-format\<close> for
  \<^verbatim>\<open>setBGPCommunityNewFormat\<close>. This is every request they make: the only call
  that sends nothing is \<^verbatim>\<open>setRouteMap\<close> with an action it rejects, which builds
  no payload.
\<close>

theorem edit_payload_operation:
  \<open>issued (setRouteMap net self n q action del) st =
     (if action \<in> {None, Some ''permit'', Some ''deny''} then
        [Edit_config self ''running'' (
  [CHR 0x0A] @
  line 3 ''<config>'' @
  line 4 ''<native xmlns="http://cisco.com/ns/yang/Cisco-IOS-XE-native">'' @
  line 5 (''<route-map operation="'' @ (if del = Some True then ''remove'' else ''merge'') @ ''">'') @
  line 6 (''<name>'' @ n @ ''</name>'') @
  line 6 ''<route-map-without-order-seq xmlns="http://cisco.com/ns/yang/Cisco-IOS-XE-route-map">'' @
  line 7 (''<seq_no>'' @ str_int (dflt 10 q) @ ''</seq_no>'') @
  line 7 (''<operation>'' @ dflt ''permit'' action @ ''</operation>'') @
  line 6 ''</route-map-without-order-seq>'' @
  line 5 ''</route-map>'' @
  line 4 ''</native>'' @
  line 3 ''</config>'' @
  replicate 2 (CHR 0x09))]
      else [])
   \<and> issued (setRouteMapBGPCommunity net self n q c del) st =
        [Edit_config self ''running'' (
  [CHR 0x0A] @
  line 3 ''<config>'' @
  line 4 ''<native xmlns="http://cisco.com/ns/yang/Cisco-IOS-XE-native">'' @
  line 5 ''<route-map>'' @
  line 6 (''<name>'' @ n @ ''</name>'') @
  line 6 ''<route-map-without-order-seq xmlns="http://cisco.com/ns/yang/Cisco-IOS-XE-route-map">'' @
  line 7 (''<seq_no>'' @ str_int (dflt 10 q) @ ''</seq_no>'') @
  line 7 ''<set>'' @
  line 8 ''<community>'' @
  line 9 ''<community-well-known>'' @
  line 10 (''<community-list operation="'' @ (if del = Some True then ''remove'' else ''merge'') @ ''">'' @
            dflt ''1:1'' c @ ''</community-list>'') @
  line 9 ''</community-well-known>'' @
  line 8 ''</community>'' @
  line 7 ''</set>'' @
  line 6 ''</route-map-without-order-seq>'' @
  line 5 ''</route-map>'' @
  line 4 ''</native>'' @
  line 3 ''</config>'' @
  replicate 2 (CHR 0x09))]
   \<and> issued (setBGPCommunityNewFormat net self del) st =
        [Edit_config self ''running'' (
  [CHR 0x0A] @
  line 3 ''<config>'' @
  line 4 ''<native xmlns="http://cisco.com/ns/yang/Cisco-IOS-XE-native">'' @
  line 5 ''<ip>'' @
  line 6 ''<bgp-community>'' @
  line 7 (''<new-format operation="'' @ (if del = Some True then ''remove'' else ''merge'') @ ''" />'') @
  line 6 ''</bgp-community>'' @
  line 5 ''</ip>'' @
  line 4 ''</native>'' @
  line 3 ''</config>'' @
  replicate 2 (CHR 0x09))]\<close>
proof -
  have op: "(if dflt False del then ''remove'' else ''merge'') =
            (if del = Some True then ''remove'' else ''merge'')"
    by (cases del) (simp_all add: dflt_def)
  have v: "dflt ''permit'' action = ''permit'' \<or> dflt ''permit'' action = ''deny''"
    if "action \<in> {None, Some ''permit'', Some ''deny''}"
    using that by (auto simp add: dflt_def)
  have none: "issued (setRouteMap net self n q action del) st = []"
    if "action \<notin> {None, Some ''permit'', Some ''deny''}"
  proof -
    from that have "dflt ''permit'' action \<noteq> ''permit''" and "dflt ''permit'' action \<noteq> ''deny''"
      by (cases action; simp add: dflt_def)+
    then have "setRouteMap net self n q action del st = (Inl (ValueError setRouteMap_message), st)"
      by (rule setRouteMap_invalid)
    then show ?thesis by (simp add: issued_def)
  qed
  show ?thesis
    apply (intro conjI)
    subgoal
      apply (cases "action \<in> {None, Some ''permit'', Some ''deny''}")
      subgoal premises valid
        by (simp only: setRouteMap_valid [OF v [OF valid]] format_setRouteMap_config
            io_bind_lift_Inr issued_call_return op if_P [OF valid])
      subgoal premises invalid
        by (simp only: none [OF invalid] if_not_P [OF invalid])
      done
    subgoal
      by (simp only: setRouteMapBGPCommunity_def Let_def format_setRouteMapBGPCommunity_config
          io_bind_lift_Inr issued_call_return op)
    subgoal
      by (simp only: setBGPCommunityNewFormat_def Let_def format_setBGPCommunityNewFormat_config
          io_bind_lift_Inr issued_call_return op)
    done
qed

theorem edit_payload_operation_witness:
  \<open>issued (setRouteMap example_remote example_netconf ''TEST_REPLICATION_BUG_NETCONF''
       None None (Some True)) ([], ()) =
     [Edit_config example_netconf ''running'' (
  [CHR 0x0A] @
  line 3 ''<config>'' @
  line 4 ''<native xmlns="http://cisco.com/ns/yang/Cisco-IOS-XE-native">'' @
  line 5 ''<route-map operation="remove">'' @
  line 6 ''<name>TEST_REPLICATION_BUG_NETCONF</name>'' @
  line 6 ''<route-map-without-order-seq xmlns="http://cisco.com/ns/yang/Cisco-IOS-XE-route-map">'' @
  line 7 ''<seq_no>10</seq_no>'' @
  line 7 ''<operation>permit</operation>'' @
  line 6 ''</route-map-without-order-seq>'' @
  line 5 ''</route-map>'' @
  line 4 ''</native>'' @
  line 3 ''</config>'' @
  replicate 2 (CHR 0x09))]
   \<and> issued (setRouteMap example_remote example_netconf ''TEST_REPLICATION_BUG_NETCONF''
       (Some 20) (Some ''deny'') None) ([], ()) =
     [Edit_config example_netconf ''running'' (
  [CHR 0x0A] @
  line 3 ''<config>'' @
  line 4 ''<native xmlns="http://cisco.com/ns/yang/Cisco-IOS-XE-native">'' @
  line 5 ''<route-map operation="merge">'' @
  line 6 ''<name>TEST_REPLICATION_BUG_NETCONF</name>'' @
  line 6 ''<route-map-without-order-seq xmlns="http://cisco.com/ns/yang/Cisco-IOS-XE-route-map">'' @
  line 7 ''<seq_no>20</seq_no>'' @
  line 7 ''<operation>deny</operation>'' @
  line 6 ''</route-map-without-order-seq>'' @
  line 5 ''</route-map>'' @
  line 4 ''</native>'' @
  line 3 ''</config>'' @
  replicate 2 (CHR 0x09))]\<close>
  using edit_payload_operation [where action = None and del = "Some True" and q = None
      and n = "''TEST_REPLICATION_BUG_NETCONF''" and net = example_remote
      and self = example_netconf and st = "([], ())"]
    edit_payload_operation [where action = "Some ''deny''" and del = None and q = "Some 20"
      and n = "''TEST_REPLICATION_BUG_NETCONF''" and net = example_remote
      and self = example_netconf and st = "([], ())"]
  by (simp add: dflt_def str_int_def str_nat.simps)


section \<open>The route-map read by name\<close>

text \<open>
  C8. Called without a name, \<^verbatim>\<open>getRouteMapByName\<close> submits a filter whose
  \<^verbatim>\<open>name\<close> element holds the literal text \<^verbatim>\<open>routeMapName\<close>: the same request
  as for a route-map of that name, not a request for all route-maps.
\<close>

theorem getRouteMapByName_default_placeholder:
  \<open>issued (getRouteMapByName net self None) st =
     [Get_config self ''running'' (
  [CHR 0x0A] @
  line 3 ''<filter>'' @
  line 4 ''<native xmlns="http://cisco.com/ns/yang/Cisco-IOS-XE-native">'' @
  line 5 ''<route-map>'' @
  line 6 ''<name>routeMapName</name>'' @
  line 5 ''</route-map>'' @
  line 4 ''</native>'' @
  line 3 ''</filter>'' @
  replicate 2 (CHR 0x09))]
   \<and> getRouteMapByName net self None = getRouteMapByName net self (Some ''routeMapName'')\<close>
  by (simp add: getRouteMapByName_def Let_def dflt_def format_getRouteMapByName_filter
      io_bind_lift_Inr issued_call_return)

theorem getRouteMapByName_default_placeholder_witness:
  \<open>issued (getRouteMapByName example_remote example_netconf None) ([], ()) =
     [Get_config example_netconf ''running'' (
  [CHR 0x0A] @
  line 3 ''<filter>'' @
  line 4 ''<native xmlns="http://cisco.com/ns/yang/Cisco-IOS-XE-native">'' @
  line 5 ''<route-map>'' @
  line 6 ''<name>routeMapName</name>'' @
  line 5 ''</route-map>'' @
  line 4 ''</native>'' @
  line 3 ''</filter>'' @
  replicate 2 (CHR 0x09))]\<close>
  by (rule getRouteMapByName_default_placeholder [THEN conjunct1])

end
